theory Spec2Isabelle
  imports Main "HOL-Library.Word" "HOL-Library.Multiset"
begin

section \<open>The JNI binding of WhisperKey (app/src/main/cpp/jni.c)\<close>

text \<open>
  The file binds five entry points of the class \<open>com.whisperkey.WhisperEngine\<close> to the
  whisper.cpp library: \<open>nativeInit\<close>, \<open>nativeRelease\<close>, \<open>nativeTranscribe\<close>,
  \<open>nativeIsLoaded\<close> and \<open>nativeGetSystemInfo\<close>. Each is embedded below as a HOL function
  of the same name. What the C code takes from outside (the whisper library, \<open>malloc\<close>)
  is a field of the record \<open>env\<close>, so that every theorem holds for every behaviour of
  the library. What the C code changes outside itself (the log, the engine instances,
  the views borrowed from the JVM, the heap block) is a field of the record \<open>world\<close>,
  passed in and returned.
\<close>

subsection \<open>Values\<close>

text \<open>
  A native pointer and a \<open>jlong\<close> are 64-bit words (the arm64 ABI), \<open>NULL\<close> is \<open>0\<close>, and the
  casts \<open>(jlong) context\<close> and \<open>(struct whisper_context *) context_ptr\<close> are the identity.
  A \<open>jfloat\<close> is the 32 bits of the sample: the binding never computes with samples.
  C's \<open>int\<close>, \<open>jint\<close> and \<open>jsize\<close> are \<open>int\<close>: the one arithmetic operation on them
  is \<open>i++\<close> under the guard \<open>i < n_segments\<close>, which cannot overflow. \<open>size_t\<close> is
  \<open>nat\<close>: \<open>total_len\<close> sums the lengths of strings that are in memory together.
\<close>

type_synonym ptr = "64 word"
type_synonym jlong = "64 word"
type_synonym jfloat = "32 word"
type_synonym jboolean = "8 word"

definition JNI_TRUE :: jboolean where
  "JNI_TRUE = 1"

definition JNI_FALSE :: jboolean where
  "JNI_FALSE = 0"

text \<open>
  A \<open>char *\<close> is modelled by the bytes stored from the address on. The C string it
  denotes is the part before the first NUL byte; a list without NUL is read as
  terminated at its end.
\<close>

definition NUL :: char where
  "NUL = CHR 0x00"

definition c_str :: "char list \<Rightarrow> string" where
  "c_str m = takeWhile (\<lambda>c. c \<noteq> NUL) m"

definition strlen :: "char list \<Rightarrow> nat" where
  "strlen m = length (c_str m)"

text \<open>
  A \<open>jstring\<close> is the byte string it was made from: \<open>NewStringUTF\<close> reads its argument
  up to the first NUL.
\<close>

type_synonym jstring = string

definition NewStringUTF :: "char list \<Rightarrow> jstring" where
  "NewStringUTF utf = c_str utf"

subsection \<open>The whisper library\<close>

datatype whisper_sampling_strategy = WHISPER_SAMPLING_GREEDY | WHISPER_SAMPLING_BEAM_SEARCH

text \<open>
  \<open>struct whisper_full_params\<close> is declared in whisper.h. The record has the fields
  that jni.c assigns and the strategy; the extension \<open>'x\<close> of the record stands for
  all the other fields of the struct.
\<close>

record whisper_full_params =
  strategy :: whisper_sampling_strategy
  n_threads :: int
  offset_ms :: int
  translate :: bool
  no_context :: bool
  single_segment :: bool
  print_special :: bool
  print_progress :: bool
  print_realtime :: bool
  print_timestamps :: bool
  suppress_blank :: bool
  suppress_nst :: bool
  language :: string

text \<open>
  What a context holds after \<open>whisper_full\<close>: the number of segments and the text of
  each, \<open>None\<close> for a NULL pointer.
\<close>

record whisper_state =
  whisper_full_n_segments :: int
  whisper_full_get_segment_text :: "int \<Rightarrow> char list option"

text \<open>
  The functions jni.c calls and does not define. \<open>whisper_full\<close> gives its status code
  and the state it leaves in the context. \<open>malloc\<close> gives the address of the block
  (\<open>0\<close> when it fails) and \<open>uninit\<close> the byte a fresh block holds at each offset.
\<close>

record ('c, 'x) env =
  whisper_context_default_params :: 'c
  whisper_init_from_file_with_params :: "string \<Rightarrow> 'c \<Rightarrow> ptr"
  whisper_full_default_params :: "whisper_sampling_strategy \<Rightarrow> 'x whisper_full_params_scheme"
  whisper_full ::
    "ptr \<Rightarrow> 'x whisper_full_params_scheme \<Rightarrow> jfloat list \<Rightarrow> int \<Rightarrow> int \<times> whisper_state"
  whisper_print_system_info :: "char list"
  malloc :: "nat \<Rightarrow> ptr"
  uninit :: "nat \<Rightarrow> char"

subsection \<open>The world\<close>

text \<open>
  The calls that create, change or destroy an engine instance are recorded in order.
\<close>

datatype 'x engine_call =
    Whisper_init_from_file string
  | Whisper_free ptr
  | Whisper_reset_timings ptr
  | Whisper_full ptr "'x whisper_full_params_scheme" "jfloat list" int

text \<open>
  What a call holds until it gives it back: the characters of a Java string
  (\<open>GetStringUTFChars\<close>, \<open>ReleaseStringUTFChars\<close>), the elements of a Java float
  array (\<open>GetFloatArrayElements\<close>, \<open>ReleaseFloatArrayElements\<close>), a heap block
  (\<open>malloc\<close>, \<open>free\<close>). The two JNI calls are taken to return the view they are
  asked for: jni.c does not test their results.
\<close>

datatype resource =
    StringUTFChars string
  | FloatArrayElements "jfloat list"
  | Heap_block ptr nat

text \<open>
  A log line is its level, its format string and its arguments. \<open>ArgS_freed k\<close> is a
  \<open>%s\<close> argument that points \<open>k\<close> bytes into a block already given to \<open>free\<close>: the
  bytes printed are not determined by the program.
\<close>

datatype log_arg = ArgS string | ArgD int | ArgS_freed nat

datatype log_line =
    LOGI string "log_arg list"
  | LOGE string "log_arg list"
  | LOGW string "log_arg list"

record 'x world =
  live :: "ptr set"
  held :: "resource multiset"
  calls :: "'x engine_call list"
  logcat :: "log_line list"

definition android_log_print :: "log_line \<Rightarrow> 'x world \<Rightarrow> 'x world" where
  "android_log_print l w = w\<lparr>logcat := logcat w @ [l]\<rparr>"

definition acquire :: "resource \<Rightarrow> 'x world \<Rightarrow> 'x world" where
  "acquire r w = w\<lparr>held := add_mset r (held w)\<rparr>"

definition give_back :: "resource \<Rightarrow> 'x world \<Rightarrow> 'x world" where
  "give_back r w = w\<lparr>held := held w - {#r#}\<rparr>"

definition engine :: "'x engine_call \<Rightarrow> 'x world \<Rightarrow> 'x world" where
  "engine c w = w\<lparr>calls := calls w @ [c]\<rparr>"

text \<open>
  Modelled from the spec: the effect of \<open>whisper_init_from_file_with_params\<close> and of
  \<open>whisper_free\<close> on the engine instances (whisper.cpp is not under src/). A
  successful load creates a live instance at the address returned; \<open>whisper_free\<close>
  "frees the underlying engine instance and all memory it owns".
\<close>

definition engine_loaded :: "ptr \<Rightarrow> 'x world \<Rightarrow> 'x world" where
  "engine_loaded p w = (if p = 0 then w else w\<lparr>live := insert p (live w)\<rparr>)"

definition engine_freed :: "ptr \<Rightarrow> 'x world \<Rightarrow> 'x world" where
  "engine_freed p w = w\<lparr>live := live w - {p}\<rparr>"

subsection \<open>nativeInit (lines 15-37)\<close>

definition nativeInit :: "('c, 'x) env \<Rightarrow> string \<Rightarrow> 'x world \<Rightarrow> jlong \<times> 'x world" where
  "nativeInit e model_path_str w0 =
     (let model_path = model_path_str;
          w1 = acquire (StringUTFChars model_path) w0;
          w2 = android_log_print (LOGI ''Loading whisper model from: %s'' [ArgS model_path]) w1;
          cparams = whisper_context_default_params e;
          context = whisper_init_from_file_with_params e model_path cparams;
          w3 = engine_loaded context (engine (Whisper_init_from_file model_path) w2);
          w4 = give_back (StringUTFChars model_path) w3
      in if context = 0 then
           (0, android_log_print (LOGE ''Failed to load whisper model'' []) w4)
         else
           (context, android_log_print (LOGI ''Whisper model loaded successfully'' []) w4))"

subsection \<open>nativeRelease (lines 40-55)\<close>

definition nativeRelease :: "jlong \<Rightarrow> 'x world \<Rightarrow> 'x world" where
  "nativeRelease context_ptr w0 =
     (if context_ptr = 0 then w0
      else
        let context = context_ptr;
            w1 = engine_freed context (engine (Whisper_free context) w0)
        in android_log_print (LOGI ''Whisper context released'' []) w1)"

subsection \<open>nativeIsLoaded (lines 148-157)\<close>

definition nativeIsLoaded :: "jlong \<Rightarrow> jboolean" where
  "nativeIsLoaded context_ptr = (if context_ptr \<noteq> 0 then JNI_TRUE else JNI_FALSE)"

subsection \<open>nativeGetSystemInfo (lines 160-168)\<close>

definition nativeGetSystemInfo :: "('c, 'x) env \<Rightarrow> jstring" where
  "nativeGetSystemInfo e = (let sysinfo = whisper_print_system_info e in NewStringUTF sysinfo)"

subsection \<open>nativeTranscribe (lines 58-145)\<close>

text \<open>
  Memory errors are results of the model: a write or a read that leaves the block
  it was aimed at.
\<close>

datatype fault = Read_past_end | Write_past_end

text \<open>
  \<open>strcat (dest, src)\<close> looks for the NUL that ends \<open>dest\<close> and writes the string
  \<open>src\<close> and a NUL from there on. \<open>dest\<close> is the whole block, so its length is the
  room there is.
\<close>

definition strcat :: "char list \<Rightarrow> char list \<Rightarrow> fault + char list" where
  "strcat dest src =
     (let n = strlen dest; s = c_str src
      in if length dest \<le> n then Inl Read_past_end
         else if length dest < n + length s + 1 then Inl Write_past_end
         else Inr (take n dest @ s @ [NUL] @ drop (n + length s + 1) dest))"

text \<open>Lines 81-93: the defaults of the greedy strategy, then twelve assignments.\<close>

definition transcribe_params :: "('c, 'x) env \<Rightarrow> int \<Rightarrow> 'x whisper_full_params_scheme" where
  "transcribe_params e num_threads =
     (whisper_full_default_params e WHISPER_SAMPLING_GREEDY)
       \<lparr>print_realtime := False,
        print_progress := False,
        print_timestamps := False,
        print_special := False,
        translate := False,
        language := ''en'',
        n_threads := num_threads,
        offset_ms := 0,
        no_context := True,
        single_segment := True,
        suppress_blank := True,
        suppress_nst := True\<rparr>"

text \<open>Lines 111-117: the first loop over the segments.\<close>

function total_len_loop :: "whisper_state \<Rightarrow> int \<Rightarrow> int \<Rightarrow> nat \<Rightarrow> nat" where
  "total_len_loop st n i total_len =
     (if i < n then
        total_len_loop st n (i + 1)
          (case whisper_full_get_segment_text st i of
             None \<Rightarrow> total_len
           | Some text \<Rightarrow> total_len + strlen text)
      else total_len)"
  by pat_completeness auto
termination
  by (relation "measure (\<lambda>(st, n, i, total_len). nat (n - i))") auto

declare total_len_loop.simps [simp del]

text \<open>Lines 127-132: the second loop over the segments.\<close>

function strcat_loop :: "whisper_state \<Rightarrow> int \<Rightarrow> int \<Rightarrow> char list \<Rightarrow> fault + char list" where
  "strcat_loop st n i full_text =
     (if i < n then
        (case whisper_full_get_segment_text st i of
           None \<Rightarrow> strcat_loop st n (i + 1) full_text
         | Some text \<Rightarrow>
             (case strcat full_text text of
                Inl f \<Rightarrow> Inl f
              | Inr full_text' \<Rightarrow> strcat_loop st n (i + 1) full_text'))
      else Inr full_text)"
  by pat_completeness auto
termination
  by (relation "measure (\<lambda>(st, n, i, full_text). nat (n - i))") auto

declare strcat_loop.simps [simp del]

text \<open>
  Lines 135-138: \<open>trimmed\<close> is the offset of the pointer in the block; \<open>None\<close> when the
  loop reads beyond the block.
\<close>

function trim_loop :: "char list \<Rightarrow> nat \<Rightarrow> nat option" where
  "trim_loop full_text trimmed =
     (if trimmed < length full_text then
        (if full_text ! trimmed = CHR '' '' \<or> full_text ! trimmed = CHR 0x0A
            \<or> full_text ! trimmed = CHR 0x09
         then trim_loop full_text (trimmed + 1)
         else Some trimmed)
      else None)"
  by pat_completeness auto
termination
  by (relation "measure (\<lambda>(full_text, trimmed). length full_text - trimmed)") auto

declare trim_loop.simps [simp del]

text \<open>
  Lines 106-144. The block of \<open>total_len + 1\<close> bytes is the list \<open>block\<close>; line 125
  writes its first byte. Line 143 logs \<open>trimmed\<close> after line 141 has freed the block.
\<close>

definition collect_segments ::
  "('c, 'x) env \<Rightarrow> whisper_state \<Rightarrow> 'x world \<Rightarrow> fault + (jstring \<times> 'x world)" where
  "collect_segments e st w0 =
     (let n_segments = whisper_full_n_segments st;
          w1 = android_log_print
                 (LOGI ''Transcription complete: %d segments'' [ArgD n_segments]) w0;
          total_len = total_len_loop st n_segments 0 0;
          full_text = malloc e (total_len + 1)
      in if full_text = 0 then
           Inr (NewStringUTF '''',
                android_log_print
                  (LOGE ''Failed to allocate memory for transcription result'' []) w1)
         else
           let w2 = acquire (Heap_block full_text (total_len + 1)) w1;
               block = (map (uninit e) [0..<total_len + 1])[0 := NUL]
           in case strcat_loop st n_segments 0 block of
                Inl f \<Rightarrow> Inl f
              | Inr block' \<Rightarrow>
                  (case trim_loop block' 0 of
                     None \<Rightarrow> Inl Read_past_end
                   | Some trimmed \<Rightarrow>
                       if NUL \<notin> set (drop trimmed block') then Inl Read_past_end
                       else
                         let jresult = NewStringUTF (drop trimmed block');
                             w3 = give_back (Heap_block full_text (total_len + 1)) w2;
                             w4 = android_log_print
                                    (LOGI ''Transcription result: %s'' [ArgS_freed trimmed]) w3
                         in Inr (jresult, w4)))"

text \<open>Lines 58-104, and the rest through \<open>collect_segments\<close>.\<close>

definition nativeTranscribe ::
  "('c, 'x) env \<Rightarrow> jlong \<Rightarrow> jfloat list \<Rightarrow> int \<Rightarrow> 'x world \<Rightarrow> fault + (jstring \<times> 'x world)" where
  "nativeTranscribe e context_ptr audio_data num_threads w0 =
     (if context_ptr = 0 then
        Inr (NewStringUTF '''',
             android_log_print (LOGE ''Transcribe called with null context'' []) w0)
      else
        let context = context_ptr;
            w1 = acquire (FloatArrayElements audio_data) w0;
            audio_data_length = int (length audio_data);
            w2 = android_log_print
                   (LOGI ''Transcribing %d samples with %d threads''
                      [ArgD audio_data_length, ArgD num_threads]) w1;
            params = transcribe_params e num_threads;
            w3 = engine (Whisper_reset_timings context) w2;
            (result, st) = whisper_full e context params audio_data audio_data_length;
            w4 = engine (Whisper_full context params audio_data audio_data_length) w3;
            w5 = give_back (FloatArrayElements audio_data) w4
        in if result \<noteq> 0 then
             Inr (NewStringUTF '''',
                  android_log_print
                    (LOGE ''Transcription failed with code: %d'' [ArgD result]) w5)
           else collect_segments e st w5)"

subsection \<open>The transcription as the specification words it\<close>

text \<open>
  The text of segment \<open>i\<close> (the empty string for a NULL pointer), the texts of all
  segments in order, and the three characters that are stripped from the front.
\<close>

definition segment_text :: "whisper_state \<Rightarrow> nat \<Rightarrow> string" where
  "segment_text st i =
     (case whisper_full_get_segment_text st (int i) of None \<Rightarrow> [] | Some text \<Rightarrow> c_str text)"

definition segment_texts :: "whisper_state \<Rightarrow> string list" where
  "segment_texts st = map (segment_text st) [0..<nat (whisper_full_n_segments st)]"

definition leading_ws :: "char \<Rightarrow> bool" where
  "leading_ws c \<longleftrightarrow> c = CHR '' '' \<or> c = CHR 0x0A \<or> c = CHR 0x09"

text \<open>
  The same state, and the same library, with the empty string wherever a segment text
  is NULL: what the claim about NULL texts compares the binding with.
\<close>

definition null_as_empty :: "whisper_state \<Rightarrow> whisper_state" where
  "null_as_empty st =
     st\<lparr>whisper_full_get_segment_text :=
          (\<lambda>i. case whisper_full_get_segment_text st i of
                 None \<Rightarrow> Some []
               | Some text \<Rightarrow> Some text)\<rparr>"

definition without_null_texts :: "('c, 'x) env \<Rightarrow> ('c, 'x) env" where
  "without_null_texts e =
     e\<lparr>whisper_full :=
         (\<lambda>ctx params samples n_samples.
            case whisper_full e ctx params samples n_samples of
              (result, st) \<Rightarrow> (result, null_as_empty st))\<rparr>"

text \<open>What the caller of \<open>nativeTranscribe\<close> gets back, without the world.\<close>

definition return_value :: "fault + (jstring \<times> 'x world) \<Rightarrow> fault + jstring" where
  "return_value r = (case r of Inl f \<Rightarrow> Inl f | Inr (jresult, w) \<Rightarrow> Inr jresult)"

text \<open>
  Modelled from the spec: the string \<open>whisper_print_system_info\<close> returns (whisper.cpp
  is not under src/), "a static diagnostic string from the engine describing build/SIMD
  capabilities". Such a string is not empty.
\<close>

definition describes_build :: "('c, 'x) env \<Rightarrow> bool" where
  "describes_build e \<longleftrightarrow> c_str (whisper_print_system_info e) \<noteq> []"

subsection \<open>A library to run the binding on\<close>

text \<open>
  A small stand-in for the library, for evaluating the binding on concrete inputs: it
  loads one model file, fails when asked for less than one thread, hears nothing in an
  empty buffer and otherwise emits three segments, the second with a NULL text.
\<close>

definition demo_params :: "whisper_sampling_strategy \<Rightarrow> whisper_full_params" where
  "demo_params s =
     \<lparr>strategy = s, n_threads = 2, offset_ms = 250, translate = True, no_context = False,
      single_segment = False, print_special = True, print_progress = True,
      print_realtime = True, print_timestamps = True, suppress_blank = False,
      suppress_nst = False, language = ''auto''\<rparr>"

definition demo_state :: whisper_state where
  "demo_state =
     \<lparr>whisper_full_n_segments = 3,
      whisper_full_get_segment_text =
        (\<lambda>i. if i = 0 then Some (CHR 0x0A # CHR 0x09 # '' hello'')
             else if i = 1 then None
             else Some '' world '')\<rparr>"

definition silent_state :: whisper_state where
  "silent_state =
     \<lparr>whisper_full_n_segments = 0, whisper_full_get_segment_text = (\<lambda>i. None)\<rparr>"

definition demo_env :: "(unit, unit) env" where
  "demo_env =
     \<lparr>whisper_context_default_params = (),
      whisper_init_from_file_with_params =
        (\<lambda>path cparams. if path = ''/data/ggml-tiny.bin'' then 4096 else 0),
      whisper_full_default_params = demo_params,
      whisper_full =
        (\<lambda>ctx params samples n_samples.
           if n_threads params < 1 then (- 1, silent_state)
           else if n_samples = 0 then (0, silent_state)
           else (0, demo_state)),
      whisper_print_system_info = ''NEON = 1 | '',
      malloc = (\<lambda>size. 28672),
      uninit = (\<lambda>offset. CHR ''?'')\<rparr>"

definition no_memory_env :: "(unit, unit) env" where
  "no_memory_env = demo_env\<lparr>malloc := (\<lambda>size. 0)\<rparr>"

definition world0 :: "unit world" where
  "world0 = \<lparr>live = {}, held = {#}, calls = [], logcat = []\<rparr>"

section \<open>Lemmas about the loops and the block\<close>

lemma NUL_notin_c_str: "NUL \<notin> set (c_str m)"
  by (auto simp: c_str_def dest: set_takeWhileD)

lemma c_str_terminated: "NUL \<notin> set s \<Longrightarrow> c_str (s @ NUL # rest) = s"
  by (induction s) (auto simp: c_str_def)

lemma upt_nat_step: "0 \<le> i \<Longrightarrow> i < n \<Longrightarrow> [nat i..<nat n] = nat i # [nat (i + 1)..<nat n]"
  by (simp add: upt_conv_Cons nat_add_distrib)

lemma segment_text_nat: "0 \<le> i \<Longrightarrow>
  segment_text st (nat i) =
    (case whisper_full_get_segment_text st i of None \<Rightarrow> [] | Some s \<Rightarrow> c_str s)"
  by (simp add: segment_text_def)

lemma total_len_loop_eq:
  "0 \<le> i \<Longrightarrow>
   total_len_loop st n i t = t + length (concat (map (segment_text st) [nat i..<nat n]))"
proof (induction st n i t rule: total_len_loop.induct)
  case (1 st n i t)
  show ?case
  proof (cases "i < n")
    case True
    with "1.prems" have step: "[nat i..<nat n] = nat i # [nat (i + 1)..<nat n]"
      by (rule upt_nat_step)
    from "1.prems" have "0 \<le> i + 1" by simp
    with True "1.IH" have
      "total_len_loop st n (i + 1)
         (case whisper_full_get_segment_text st i of None \<Rightarrow> t | Some s \<Rightarrow> t + strlen s) =
       (case whisper_full_get_segment_text st i of None \<Rightarrow> t | Some s \<Rightarrow> t + strlen s) +
       length (concat (map (segment_text st) [nat (i + 1)..<nat n]))"
      by blast
    with True "1.prems" show ?thesis
      by (subst total_len_loop.simps)
         (simp add: step segment_text_nat strlen_def split: option.splits)
  next
    case False
    then show ?thesis
      by (subst total_len_loop.simps) simp
  qed
qed

lemma strcat_terminated:
  assumes "NUL \<notin> set acc" and "length (c_str src) \<le> length rest"
  shows "strcat (acc @ NUL # rest) src =
         Inr ((acc @ c_str src) @ NUL # drop (length (c_str src)) rest)"
  using assms by (simp add: strcat_def strlen_def c_str_terminated Let_def)

text \<open>A block too small for the string is overrun, and the model says so.\<close>

lemma strcat_overrun: "strcat [NUL] [CHR 0x61, CHR 0x62] = Inl Write_past_end"
  by (simp add: strcat_def strlen_def c_str_def NUL_def)

lemma strcat_loop_eq:
  "0 \<le> i \<Longrightarrow> NUL \<notin> set acc \<Longrightarrow>
   length (concat (map (segment_text st) [nat i..<nat n])) \<le> length rest \<Longrightarrow>
   strcat_loop st n i (acc @ NUL # rest) =
     Inr ((acc @ concat (map (segment_text st) [nat i..<nat n])) @
          NUL # drop (length (concat (map (segment_text st) [nat i..<nat n]))) rest)"
proof (induction st n i "acc @ NUL # rest" arbitrary: acc rest rule: strcat_loop.induct)
  case (1 st n i)
  let ?tail = "concat (map (segment_text st) [nat (i + 1)..<nat n])"
  show ?case
  proof (cases "i < n")
    case False
    then show ?thesis
      by (subst strcat_loop.simps) simp
  next
    case True
    with "1.prems" have step: "[nat i..<nat n] = nat i # [nat (i + 1)..<nat n]"
      by (simp add: upt_nat_step)
    from "1.prems" have nonneg: "0 \<le> i + 1" by simp
    show ?thesis
    proof (cases "whisper_full_get_segment_text st i")
      case None
      with "1.prems" have empty: "segment_text st (nat i) = []"
        by (simp add: segment_text_nat)
      from "1.prems" have room: "length ?tail \<le> length rest"
        by (simp add: step empty)
      have "strcat_loop st n (i + 1) (acc @ NUL # rest) =
            Inr ((acc @ ?tail) @ NUL # drop (length ?tail) rest)"
        using "1.hyps"(1) [OF True None refl nonneg "1.prems"(2) room] .
      with True None show ?thesis
        by (subst strcat_loop.simps) (simp add: step empty)
    next
      case (Some s)
      let ?t = "c_str s"
      from Some "1.prems" have seg: "segment_text st (nat i) = ?t"
        by (simp add: segment_text_nat)
      from "1.prems" have room: "length ?t + length ?tail \<le> length rest"
        by (simp add: step seg)
      then have fits: "length ?t \<le> length rest" by simp
      have cat: "strcat (acc @ NUL # rest) s =
                 Inr ((acc @ ?t) @ NUL # drop (length ?t) rest)"
        using "1.prems"(2) fits by (rule strcat_terminated)
      have clean: "NUL \<notin> set (acc @ ?t)"
        using "1.prems"(2) by (simp add: NUL_notin_c_str)
      have room': "length ?tail \<le> length (drop (length ?t) rest)"
        using room by simp
      have "strcat_loop st n (i + 1) ((acc @ ?t) @ NUL # drop (length ?t) rest) =
            Inr (((acc @ ?t) @ ?tail) @
                 NUL # drop (length ?tail) (drop (length ?t) rest))"
        using "1.hyps"(2) [OF True Some cat nonneg clean room'] .
      with True Some cat show ?thesis
        by (subst strcat_loop.simps) (simp add: step seg add.commute)
    qed
  qed
qed

lemma trim_loop_eq:
  "NUL \<notin> set s \<Longrightarrow>
   trim_loop (pre @ s @ NUL # rest) (length pre) =
     Some (length pre + length (takeWhile leading_ws s))"
proof (induction s arbitrary: pre)
  case Nil
  show ?case
    by (subst trim_loop.simps) (simp add: NUL_def)
next
  case (Cons c s)
  from Cons.prems have clean: "NUL \<notin> set s" by simp
  have at: "((pre @ [c]) @ s @ NUL # rest) ! length pre = c"
    by (simp add: nth_append)
  show ?case
  proof (cases "leading_ws c")
    case True
    have "trim_loop ((pre @ [c]) @ s @ NUL # rest) (length (pre @ [c])) =
          Some (length (pre @ [c]) + length (takeWhile leading_ws s))"
      using clean by (rule Cons.IH)
    with True at show ?thesis
      by (subst trim_loop.simps) (simp add: leading_ws_def)
  next
    case False
    with at show ?thesis
      by (subst trim_loop.simps) (simp add: leading_ws_def)
  qed
qed

lemma fresh_block:
  "(map f [0..<t + 1])[0 := NUL] = [] @ NUL # map f [1..<t + 1]"
  by (simp add: upt_conv_Cons del: upt_Suc)

lemma give_back_acquire: "give_back r (acquire r w) = w"
  by (simp add: give_back_def acquire_def)

lemma NewStringUTF_empty: "NewStringUTF [] = []"
  by (simp add: NewStringUTF_def c_str_def)

lemma total_len_loop_segment_texts:
  "total_len_loop st (whisper_full_n_segments st) 0 0 = length (concat (segment_texts st))"
  using total_len_loop_eq [of 0 st "whisper_full_n_segments st" 0]
  by (simp add: segment_texts_def)

lemma strcat_loop_segment_texts:
  "strcat_loop st (whisper_full_n_segments st) 0
     ((map f [0..<length (concat (segment_texts st)) + 1])[0 := NUL]) =
   Inr (concat (segment_texts st) @ [NUL])"
proof -
  let ?cat = "concat (segment_texts st)"
  let ?cat' = "concat (map (segment_text st) [nat 0..<nat (whisper_full_n_segments st)])"
  let ?rest = "map f [1..<length ?cat + 1]"
  have eq: "?cat' = ?cat"
    by (simp add: segment_texts_def)
  have len: "length ?rest = length ?cat"
    by (simp del: upt_Suc)
  have room: "length ?cat' \<le> length ?rest"
    by (simp only: eq len)
  have "strcat_loop st (whisper_full_n_segments st) 0 ([] @ NUL # ?rest) =
        Inr (([] @ ?cat') @ NUL # drop (length ?cat') ?rest)"
    by (rule strcat_loop_eq [OF _ _ room]) simp_all
  then have "strcat_loop st (whisper_full_n_segments st) 0 ([] @ NUL # ?rest) =
             Inr (?cat @ [NUL])"
    by (simp only: eq) (simp del: upt_Suc)
  then show ?thesis
    by (simp only: fresh_block)
qed

lemma NUL_notin_segment_texts: "NUL \<notin> set (concat (segment_texts st))"
  by (auto simp: segment_texts_def segment_text_def NUL_notin_c_str split: option.splits)

lemma trim_loop_terminated:
  "NUL \<notin> set s \<Longrightarrow> trim_loop (s @ [NUL]) 0 = Some (length (takeWhile leading_ws s))"
  using trim_loop_eq [of s "[]" "[]"] by simp

lemma drop_trimmed:
  "drop (length (takeWhile leading_ws s)) (s @ [NUL]) = dropWhile leading_ws s @ [NUL]"
  by (simp add: dropWhile_eq_drop length_takeWhile_le)

lemma NewStringUTF_terminated: "NUL \<notin> set s \<Longrightarrow> NewStringUTF (s @ NUL # rest) = s"
  by (simp add: NewStringUTF_def c_str_terminated)

lemma collect_segments_eq:
  "collect_segments e st w =
     (if malloc e (length (concat (segment_texts st)) + 1) = 0 then
        Inr ([], android_log_print
                   (LOGE ''Failed to allocate memory for transcription result'' [])
                   (android_log_print
                      (LOGI ''Transcription complete: %d segments''
                         [ArgD (whisper_full_n_segments st)]) w))
      else
        Inr (dropWhile leading_ws (concat (segment_texts st)),
             android_log_print
               (LOGI ''Transcription result: %s''
                  [ArgS_freed (length (takeWhile leading_ws (concat (segment_texts st))))])
               (android_log_print
                  (LOGI ''Transcription complete: %d segments''
                     [ArgD (whisper_full_n_segments st)]) w)))"
proof -
  let ?cat = "concat (segment_texts st)"
  let ?k = "length (takeWhile leading_ws ?cat)"
  have clean: "NUL \<notin> set ?cat" by (rule NUL_notin_segment_texts)
  then have clean': "NUL \<notin> set (dropWhile leading_ws ?cat)"
    by (auto dest: set_dropWhileD)
  have trimmed: "trim_loop (?cat @ [NUL]) 0 = Some ?k"
    using clean by (rule trim_loop_terminated)
  have rest: "drop ?k (?cat @ [NUL]) = dropWhile leading_ws ?cat @ [NUL]"
    by (rule drop_trimmed)
  have terminated: "NUL \<in> set (drop ?k (?cat @ [NUL]))"
    by (simp only: rest) simp
  have jresult: "NewStringUTF (drop ?k (?cat @ [NUL])) = dropWhile leading_ws ?cat"
    by (simp only: rest NewStringUTF_terminated [OF clean'])
  show ?thesis
    unfolding collect_segments_def Let_def total_len_loop_segment_texts
      strcat_loop_segment_texts
    by (simp only: trimmed terminated jresult give_back_acquire NewStringUTF_empty
        sum.case option.case not_True_eq_False not_not if_False if_True)
qed

lemma nativeTranscribe_eq:
  assumes "h \<noteq> 0"
    and "whisper_full e h (transcribe_params e n) audio (int (length audio)) = (r, st)"
  shows "nativeTranscribe e h audio n w =
     (let w5 = engine (Whisper_full h (transcribe_params e n) audio (int (length audio)))
                 (engine (Whisper_reset_timings h)
                    (android_log_print
                       (LOGI ''Transcribing %d samples with %d threads''
                          [ArgD (int (length audio)), ArgD n]) w))
      in if r \<noteq> 0 then
           Inr ([], android_log_print (LOGE ''Transcription failed with code: %d'' [ArgD r]) w5)
         else collect_segments e st w5)"
proof -
  have "give_back r (engine c2 (engine c1 (android_log_print l (acquire r w)))) =
        engine c2 (engine c1 (android_log_print l w))" for r c1 c2 l
    by (simp add: give_back_def engine_def android_log_print_def acquire_def)
  with assms show ?thesis
    by (simp add: nativeTranscribe_def Let_def NewStringUTF_empty)
qed

lemma nativeTranscribe_world:
  assumes "h \<noteq> 0"
  shows "\<exists>jresult w'.
           nativeTranscribe e h audio n w = Inr (jresult, w') \<and>
           calls w' = calls w @ [Whisper_reset_timings h,
                                 Whisper_full h (transcribe_params e n) audio (int (length audio))] \<and>
           held w' = held w \<and> live w' = live w"
proof -
  obtain r st where
    full: "whisper_full e h (transcribe_params e n) audio (int (length audio)) = (r, st)"
    by (cases "whisper_full e h (transcribe_params e n) audio (int (length audio))")
  show ?thesis
    unfolding nativeTranscribe_eq [OF assms full] collect_segments_eq
    by (simp add: Let_def engine_def android_log_print_def)
qed

text \<open>A NULL text and an empty text give the same texts, hence the same collection.\<close>

lemma segment_texts_null_as_empty: "segment_texts (null_as_empty st) = segment_texts st"
  by (simp add: segment_texts_def segment_text_def null_as_empty_def c_str_def
      split: option.splits)

lemma collect_segments_null_as_empty:
  "malloc e' = malloc e \<Longrightarrow>
   collect_segments e' (null_as_empty st) w = collect_segments e st w"
  unfolding collect_segments_eq segment_texts_null_as_empty
  by (simp add: null_as_empty_def)

lemma nativeTranscribe_without_null_texts:
  "nativeTranscribe (without_null_texts e) h audio n w = nativeTranscribe e h audio n w"
proof (cases "h = 0")
  case True
  then show ?thesis
    by (simp add: nativeTranscribe_def)
next
  case False
  obtain r st where
    full: "whisper_full e h (transcribe_params e n) audio (int (length audio)) = (r, st)"
    by (cases "whisper_full e h (transcribe_params e n) audio (int (length audio))")
  have params: "transcribe_params (without_null_texts e) n = transcribe_params e n"
    by (simp add: transcribe_params_def without_null_texts_def)
  have full': "whisper_full (without_null_texts e) h
                 (transcribe_params (without_null_texts e) n) audio (int (length audio)) =
               (r, null_as_empty st)"
    unfolding params by (simp add: without_null_texts_def full)
  have block: "malloc (without_null_texts e) = malloc e"
    by (simp add: without_null_texts_def)
  show ?thesis
    unfolding nativeTranscribe_eq [OF False full] nativeTranscribe_eq [OF False full'] params
      collect_segments_null_as_empty [OF block]
    by simp
qed

text \<open>
  On the path that returns the text, the last line of the log is the one of line 143.
  Its \<open>%s\<close> argument is \<open>trimmed\<close>, which points into the block that line 141 has
  already freed.
\<close>

lemma result_logged_after_free:
  assumes "h \<noteq> 0"
    and "whisper_full e h (transcribe_params e n) audio (int (length audio)) = (0, st)"
    and "malloc e (length (concat (segment_texts st)) + 1) \<noteq> 0"
  shows "\<exists>jresult w'.
           nativeTranscribe e h audio n w = Inr (jresult, w') \<and>
           last (logcat w') =
             LOGI ''Transcription result: %s''
               [ArgS_freed (length (takeWhile leading_ws (concat (segment_texts st))))]"
  using assms(3)
  unfolding nativeTranscribe_eq [OF assms(1,2)] collect_segments_eq
  by (simp add: Let_def android_log_print_def)

section \<open>The claims\<close>

text \<open>
  C1, as amended. For every handle that is not \<open>0\<close>, when \<open>whisper_full\<close> returns \<open>0\<close>
  and \<open>malloc\<close> returns a block, \<open>nativeTranscribe\<close> returns the texts of the segments
  joined in order with nothing between them, without the longest prefix made of
  spaces, newlines and tabs; everything after that prefix is returned as it is.
\<close>

theorem transcribe_success_text:
  assumes "context_ptr \<noteq> 0"
    and "whisper_full e context_ptr (transcribe_params e num_threads) audio_data
           (int (length audio_data)) = (0, st)"
    and "malloc e (total_len_loop st (whisper_full_n_segments st) 0 0 + 1) \<noteq> 0"
  shows "return_value (nativeTranscribe e context_ptr audio_data num_threads w) =
           Inr (dropWhile leading_ws (concat (segment_texts st)))"
  using assms(3)
  by (simp add: nativeTranscribe_eq [OF assms(1,2)] collect_segments_eq return_value_def
      total_len_loop_segment_texts Let_def)

theorem transcribe_success_text_witness:
  "(4096 :: jlong) \<noteq> 0 \<and>
   whisper_full demo_env 4096 (transcribe_params demo_env 4) [1, 2, 3] (int (length [1, 2, 3 :: jfloat])) =
     (0, demo_state) \<and>
   malloc demo_env (total_len_loop demo_state (whisper_full_n_segments demo_state) 0 0 + 1) \<noteq> 0 \<and>
   concat (segment_texts demo_state) = CHR 0x0A # CHR 0x09 # '' hello world '' \<and>
   return_value (nativeTranscribe demo_env 4096 [1, 2, 3] 4 world0) = Inr ''hello world ''"
proof -
  have nonzero: "(4096 :: jlong) \<noteq> 0"
    by simp
  have full: "whisper_full demo_env 4096 (transcribe_params demo_env 4) [1, 2, 3]
                (int (length [1, 2, 3 :: jfloat])) = (0, demo_state)"
    by (simp add: demo_env_def transcribe_params_def)
  have block: "malloc demo_env
                 (total_len_loop demo_state (whisper_full_n_segments demo_state) 0 0 + 1) \<noteq> 0"
    by (simp add: demo_env_def)
  have texts: "concat (segment_texts demo_state) = CHR 0x0A # CHR 0x09 # '' hello world ''"
    by (simp add: segment_texts_def segment_text_def demo_state_def c_str_def NUL_def
        upt_conv_Cons)
  from transcribe_success_text [OF nonzero full block, of world0] nonzero full block texts
  show ?thesis
    by (simp add: leading_ws_def)
qed

text \<open>
  C1 as the claim states it fails: the handle is not \<open>0\<close> and \<open>whisper_full\<close> returns
  \<open>0\<close> with three segments, but \<open>malloc\<close> returns NULL and the result is the empty
  string, not the trimmed text of the segments.
\<close>

theorem transcribe_success_text_counterexample:
  "(4096 :: jlong) \<noteq> 0 \<and>
   whisper_full no_memory_env 4096 (transcribe_params no_memory_env 4) [1, 2, 3]
     (int (length [1, 2, 3 :: jfloat])) = (0, demo_state) \<and>
   dropWhile leading_ws (concat (segment_texts demo_state)) = ''hello world '' \<and>
   return_value (nativeTranscribe no_memory_env 4096 [1, 2, 3] 4 world0) = Inr ''''"
proof -
  have nonzero: "(4096 :: jlong) \<noteq> 0"
    by simp
  have full: "whisper_full no_memory_env 4096 (transcribe_params no_memory_env 4) [1, 2, 3]
                (int (length [1, 2, 3 :: jfloat])) = (0, demo_state)"
    by (simp add: no_memory_env_def demo_env_def transcribe_params_def)
  have texts: "dropWhile leading_ws (concat (segment_texts demo_state)) = ''hello world ''"
    by (simp add: segment_texts_def segment_text_def demo_state_def c_str_def NUL_def
        upt_conv_Cons leading_ws_def)
  have "return_value (nativeTranscribe no_memory_env 4096 [1, 2, 3] 4 world0) = Inr ''''"
    unfolding nativeTranscribe_eq [OF nonzero full] collect_segments_eq
    by (simp add: return_value_def no_memory_env_def)
  with nonzero full texts show ?thesis
    by simp
qed

text \<open>
  C2. For every sample buffer and every thread count, \<open>nativeTranscribe\<close> with handle
  \<open>0\<close> returns the empty string as a normal value, and the only thing it changes is
  the log, which gets one error line.
\<close>

theorem transcribe_null_handle:
  "nativeTranscribe e 0 audio_data num_threads w =
     Inr ('''', w\<lparr>logcat := logcat w @ [LOGE ''Transcribe called with null context'' []]\<rparr>)"
  by (simp add: nativeTranscribe_def NewStringUTF_empty android_log_print_def)

theorem transcribe_null_handle_witness:
  "nativeTranscribe demo_env 0 [1, 2, 3] 4 world0 =
     Inr ('''', \<lparr>live = {}, held = {#}, calls = [],
               logcat = [LOGE ''Transcribe called with null context'' []]\<rparr>)"
  using transcribe_null_handle [of demo_env "[1, 2, 3]" 4 world0]
  by (simp add: world0_def)

text \<open>
  C3. For every handle that is not \<open>0\<close>, when \<open>whisper_full\<close> returns a status other
  than \<open>0\<close>, or returns \<open>0\<close> and \<open>malloc\<close> returns NULL, \<open>nativeTranscribe\<close> returns
  the empty string as a normal value. That is the value every call returns in which
  \<open>whisper_full\<close> returns \<open>0\<close>, the segment texts are all empty and \<open>malloc\<close> returns a
  block.
\<close>

theorem transcribe_failure_empty:
  assumes "context_ptr \<noteq> 0"
    and "whisper_full e context_ptr (transcribe_params e num_threads) audio_data
           (int (length audio_data)) = (result, st)"
    and "result \<noteq> 0 \<or> malloc e (total_len_loop st (whisper_full_n_segments st) 0 0 + 1) = 0"
  shows "return_value (nativeTranscribe e context_ptr audio_data num_threads w) = Inr '''' \<and>
         (\<forall>e' context_ptr' audio_data' num_threads' st' w'.
            context_ptr' \<noteq> 0 \<and>
            whisper_full e' context_ptr' (transcribe_params e' num_threads') audio_data'
              (int (length audio_data')) = (0, st') \<and>
            concat (segment_texts st') = [] \<and>
            malloc e' (total_len_loop st' (whisper_full_n_segments st') 0 0 + 1) \<noteq> 0 \<longrightarrow>
            return_value
              (nativeTranscribe (e' :: ('c, 'x) env) context_ptr' audio_data' num_threads' w') =
            return_value (nativeTranscribe e context_ptr audio_data num_threads w))"
proof -
  have failed: "return_value (nativeTranscribe e context_ptr audio_data num_threads w) = Inr ''''"
    using assms(3)
    by (auto simp: nativeTranscribe_eq [OF assms(1,2)] collect_segments_eq return_value_def
        total_len_loop_segment_texts Let_def)
  have "return_value (nativeTranscribe e' context_ptr' audio_data' num_threads' w') = Inr ''''"
    if "context_ptr' \<noteq> 0"
      and "whisper_full e' context_ptr' (transcribe_params e' num_threads') audio_data'
          (int (length audio_data')) = (0, st')"
      and "concat (segment_texts st') = []"
    for e' :: "('c, 'x) env" and context_ptr' audio_data' num_threads' st' w'
    unfolding nativeTranscribe_eq [OF that(1,2)] collect_segments_eq that(3)
    by (simp add: return_value_def Let_def)
  with failed show ?thesis
    by simp
qed

theorem transcribe_failure_empty_witness:
  "(4096 :: jlong) \<noteq> 0 \<and>
   whisper_full demo_env 4096 (transcribe_params demo_env 0) [1, 2, 3]
     (int (length [1, 2, 3 :: jfloat])) = (- 1, silent_state) \<and>
   return_value (nativeTranscribe demo_env 4096 [1, 2, 3] 0 world0) = Inr '''' \<and>
   whisper_full no_memory_env 4096 (transcribe_params no_memory_env 4) [1, 2, 3]
     (int (length [1, 2, 3 :: jfloat])) = (0, demo_state) \<and>
   malloc no_memory_env
     (total_len_loop demo_state (whisper_full_n_segments demo_state) 0 0 + 1) = 0 \<and>
   return_value (nativeTranscribe no_memory_env 4096 [1, 2, 3] 4 world0) = Inr '''' \<and>
   whisper_full demo_env 4096 (transcribe_params demo_env 4) [] (int (length ([] :: jfloat list))) =
     (0, silent_state) \<and>
   return_value (nativeTranscribe demo_env 4096 [] 4 world0) =
     return_value (nativeTranscribe no_memory_env 4096 [1, 2, 3] 4 world0)"
proof -
  have nonzero: "(4096 :: jlong) \<noteq> 0"
    by simp
  have full: "whisper_full demo_env 4096 (transcribe_params demo_env 0) [1, 2, 3]
                (int (length [1, 2, 3 :: jfloat])) = (- 1, silent_state)"
    by (simp add: demo_env_def transcribe_params_def)
  have status: "(- 1 :: int) \<noteq> 0 \<or>
                malloc demo_env
                  (total_len_loop silent_state (whisper_full_n_segments silent_state) 0 0 + 1) = 0"
    by simp
  have full': "whisper_full no_memory_env 4096 (transcribe_params no_memory_env 4) [1, 2, 3]
                 (int (length [1, 2, 3 :: jfloat])) = (0, demo_state)"
    by (simp add: no_memory_env_def demo_env_def transcribe_params_def)
  have block: "malloc no_memory_env
                 (total_len_loop demo_state (whisper_full_n_segments demo_state) 0 0 + 1) = 0"
    by (simp add: no_memory_env_def)
  then have status': "(0 :: int) \<noteq> 0 \<or>
                      malloc no_memory_env
                        (total_len_loop demo_state (whisper_full_n_segments demo_state) 0 0 + 1) = 0"
    by simp
  have quiet: "whisper_full demo_env 4096 (transcribe_params demo_env 4) []
                 (int (length ([] :: jfloat list))) = (0, silent_state)"
    by (simp add: demo_env_def transcribe_params_def)
  have no_text: "concat (segment_texts silent_state) = []"
    by (simp add: segment_texts_def silent_state_def)
  have block': "malloc demo_env
                  (total_len_loop silent_state (whisper_full_n_segments silent_state) 0 0 + 1) \<noteq> 0"
    by (simp add: demo_env_def)
  have same: "return_value (nativeTranscribe demo_env 4096 [] 4 world0) =
              return_value (nativeTranscribe no_memory_env 4096 [1, 2, 3] 4 world0)"
    using transcribe_failure_empty [OF nonzero full' status', of world0]
      nonzero quiet no_text block'
    by blast
  from transcribe_failure_empty [OF nonzero full status, of world0, THEN conjunct1]
    transcribe_failure_empty [OF nonzero full' status', of world0, THEN conjunct1]
    nonzero full full' block quiet same
  show ?thesis
    by simp
qed

text \<open>
  C4. For every model path, the handle \<open>nativeInit\<close> returns is the pointer the library
  returned: it is \<open>0\<close> exactly when the library returned NULL, and a handle that is not
  \<open>0\<close> is the address of a live engine instance. The result is always a handle: the
  function has no error result.
\<close>

theorem init_handle:
  "fst (nativeInit e model_path w) =
     whisper_init_from_file_with_params e model_path (whisper_context_default_params e) \<and>
   (fst (nativeInit e model_path w) = 0 \<longleftrightarrow>
      whisper_init_from_file_with_params e model_path (whisper_context_default_params e) = 0) \<and>
   (fst (nativeInit e model_path w) \<noteq> 0 \<longrightarrow>
      fst (nativeInit e model_path w) \<in> live (snd (nativeInit e model_path w)))"
  by (simp add: nativeInit_def Let_def engine_loaded_def engine_def android_log_print_def
      acquire_def give_back_def)

theorem init_handle_witness:
  "fst (nativeInit demo_env ''/data/ggml-tiny.bin'' world0) = 4096 \<and>
   4096 \<in> live (snd (nativeInit demo_env ''/data/ggml-tiny.bin'' world0)) \<and>
   fst (nativeInit demo_env ''/data/missing.bin'' world0) = 0"
proof -
  have found: "whisper_init_from_file_with_params demo_env ''/data/ggml-tiny.bin''
                 (whisper_context_default_params demo_env) = 4096"
    by (simp add: demo_env_def)
  have missing: "whisper_init_from_file_with_params demo_env ''/data/missing.bin''
                   (whisper_context_default_params demo_env) = 0"
    by (simp add: demo_env_def)
  from init_handle [of demo_env "''/data/ggml-tiny.bin''" world0]
    init_handle [of demo_env "''/data/missing.bin''" world0]
  show ?thesis
    unfolding found missing by auto
qed

text \<open>
  C5. \<open>nativeIsLoaded\<close> is the predicate "the handle is not 0": it takes no world and
  returns none, it is false on \<open>0\<close> and true on every other handle, also on one whose
  engine instance \<open>nativeRelease\<close> has just freed.
\<close>

theorem isLoaded_nonzero:
  "(nativeIsLoaded h = JNI_TRUE \<longleftrightarrow> h \<noteq> 0) \<and>
   (nativeIsLoaded h = JNI_FALSE \<longleftrightarrow> h = 0) \<and>
   (h \<noteq> 0 \<longrightarrow> h \<notin> live (nativeRelease h w) \<and> nativeIsLoaded h = JNI_TRUE)"
  by (simp add: nativeIsLoaded_def JNI_TRUE_def JNI_FALSE_def nativeRelease_def Let_def
      engine_freed_def engine_def android_log_print_def)

theorem isLoaded_nonzero_witness:
  "nativeIsLoaded 0 = JNI_FALSE \<and> nativeIsLoaded 4096 = JNI_TRUE \<and>
   (4096 :: jlong) \<noteq> 0 \<and>
   4096 \<notin> live (nativeRelease 4096 (world0\<lparr>live := {4096}\<rparr>))"
  using isLoaded_nonzero [of 0 world0] isLoaded_nonzero [of 4096 "world0\<lparr>live := {4096}\<rparr>"]
  by simp

text \<open>
  C6. \<open>nativeRelease\<close> with handle \<open>0\<close> returns the world it was given. With any other
  handle it calls \<open>whisper_free\<close> on it, once, after which the instance is not live;
  nothing else but the log changes. The function returns no value and has no error
  result.
\<close>

theorem release_frees:
  "nativeRelease 0 w = w \<and>
   (h \<noteq> 0 \<longrightarrow>
      calls (nativeRelease h w) = calls w @ [Whisper_free h] \<and>
      live (nativeRelease h w) = live w - {h} \<and>
      held (nativeRelease h w) = held w)"
  by (simp add: nativeRelease_def Let_def engine_freed_def engine_def android_log_print_def)

theorem release_frees_witness:
  "nativeRelease 0 world0 = world0 \<and> (4096 :: jlong) \<noteq> 0 \<and>
   calls (nativeRelease 4096 (world0\<lparr>live := {4096}\<rparr>)) = [Whisper_free 4096] \<and>
   live (nativeRelease 4096 (world0\<lparr>live := {4096}\<rparr>)) = {}"
  using release_frees [of world0 4096] release_frees [of "world0\<lparr>live := {4096}\<rparr>" 4096]
  by (simp add: world0_def)

text \<open>
  C7. For every handle that is not \<open>0\<close>, \<open>nativeTranscribe\<close> returns normally having made
  two calls on the engine instance: \<open>whisper_reset_timings\<close>, then \<open>whisper_full\<close> once,
  on the whole sample buffer and its length. The parameters it passes are the library's
  defaults for the greedy strategy with the language \<open>en\<close>, translation, context
  carry-over and the four kinds of printing off, single-segment mode and the two
  suppressions on, offset \<open>0\<close>, and the caller's thread count; two calls differ in the
  thread count only.
\<close>

theorem transcribe_fixed_configuration:
  assumes "context_ptr \<noteq> 0"
  shows "(\<exists>jresult w'.
            nativeTranscribe e context_ptr audio_data num_threads w = Inr (jresult, w') \<and>
            calls w' =
              calls w @
                [Whisper_reset_timings context_ptr,
                 Whisper_full context_ptr (transcribe_params e num_threads) audio_data
                   (int (length audio_data))]) \<and>
         transcribe_params e num_threads =
           (transcribe_params e other_threads)\<lparr>n_threads := num_threads\<rparr> \<and>
         n_threads (transcribe_params e num_threads) = num_threads \<and>
         strategy (transcribe_params e num_threads) =
           strategy (whisper_full_default_params e WHISPER_SAMPLING_GREEDY) \<and>
         whisper_full_params.more (transcribe_params e num_threads) =
           whisper_full_params.more (whisper_full_default_params e WHISPER_SAMPLING_GREEDY) \<and>
         language (transcribe_params e num_threads) = ''en'' \<and>
         \<not> translate (transcribe_params e num_threads) \<and>
         no_context (transcribe_params e num_threads) \<and>
         \<not> print_timestamps (transcribe_params e num_threads) \<and>
         \<not> print_progress (transcribe_params e num_threads) \<and>
         \<not> print_realtime (transcribe_params e num_threads) \<and>
         \<not> print_special (transcribe_params e num_threads) \<and>
         single_segment (transcribe_params e num_threads) \<and>
         suppress_blank (transcribe_params e num_threads) \<and>
         suppress_nst (transcribe_params e num_threads) \<and>
         offset_ms (transcribe_params e num_threads) = 0"
proof -
  from nativeTranscribe_world [OF assms, of e audio_data num_threads w]
  have "\<exists>jresult w'.
          nativeTranscribe e context_ptr audio_data num_threads w = Inr (jresult, w') \<and>
          calls w' =
            calls w @
              [Whisper_reset_timings context_ptr,
               Whisper_full context_ptr (transcribe_params e num_threads) audio_data
                 (int (length audio_data))]"
    by blast
  then show ?thesis
    by (simp add: transcribe_params_def)
qed

theorem transcribe_fixed_configuration_witness:
  "(4096 :: jlong) \<noteq> 0 \<and>
   (\<exists>jresult w'.
      nativeTranscribe demo_env 4096 [1, 2, 3] 4 world0 = Inr (jresult, w') \<and>
      calls w' =
        [Whisper_reset_timings 4096,
         Whisper_full 4096
           \<lparr>strategy = WHISPER_SAMPLING_GREEDY, n_threads = 4, offset_ms = 0,
            translate = False, no_context = True, single_segment = True,
            print_special = False, print_progress = False, print_realtime = False,
            print_timestamps = False, suppress_blank = True, suppress_nst = True,
            language = ''en''\<rparr>
           [1, 2, 3] 3])"
proof -
  have nonzero: "(4096 :: jlong) \<noteq> 0"
    by simp
  have params: "transcribe_params demo_env 4 =
      \<lparr>strategy = WHISPER_SAMPLING_GREEDY, n_threads = 4, offset_ms = 0,
       translate = False, no_context = True, single_segment = True,
       print_special = False, print_progress = False, print_realtime = False,
       print_timestamps = False, suppress_blank = True, suppress_nst = True,
       language = ''en''\<rparr>"
    by (simp add: transcribe_params_def demo_env_def demo_params_def)
  from transcribe_fixed_configuration [OF nonzero, of demo_env "[1, 2, 3]" 4 world0 0,
      THEN conjunct1]
  show ?thesis
    by (simp add: params world0_def)
qed

text \<open>
  C8. \<open>nativeInit\<close> takes the characters of the path and \<open>nativeTranscribe\<close> takes the
  elements of the array and the heap block; each returns normally, on every path and
  for every handle, holding exactly what was held when it was called. With nothing
  held before the call, nothing is held after it.
\<close>

theorem borrowed_views_released:
  "held (snd (nativeInit e model_path w)) = held w \<and>
   (\<exists>jresult w'.
      nativeTranscribe e context_ptr audio_data num_threads w = Inr (jresult, w') \<and>
      held w' = held w)"
proof -
  have init: "held (snd (nativeInit e model_path w)) = held w"
    by (simp add: nativeInit_def Let_def acquire_def give_back_def engine_loaded_def
        engine_def android_log_print_def)
  have "\<exists>jresult w'.
          nativeTranscribe e context_ptr audio_data num_threads w = Inr (jresult, w') \<and>
          held w' = held w"
  proof (cases "context_ptr = 0")
    case True
    then show ?thesis
      by (simp add: nativeTranscribe_def android_log_print_def)
  next
    case False
    from nativeTranscribe_world [OF False, of e audio_data num_threads w]
    show ?thesis
      by blast
  qed
  with init show ?thesis
    by simp
qed

theorem borrowed_views_released_witness:
  "held world0 = {#} \<and>
   held (snd (nativeInit demo_env ''/data/ggml-tiny.bin'' world0)) = {#} \<and>
   held (snd (nativeInit demo_env ''/data/missing.bin'' world0)) = {#} \<and>
   (\<exists>jresult w'.
      nativeTranscribe demo_env 4096 [1, 2, 3] 4 world0 = Inr (jresult, w') \<and> held w' = {#}) \<and>
   (\<exists>jresult w'.
      nativeTranscribe demo_env 4096 [1, 2, 3] 0 world0 = Inr (jresult, w') \<and> held w' = {#}) \<and>
   (\<exists>jresult w'.
      nativeTranscribe no_memory_env 4096 [1, 2, 3] 4 world0 = Inr (jresult, w') \<and>
      held w' = {#})"
proof -
  have empty: "held world0 = {#}"
    by (simp add: world0_def)
  from borrowed_views_released [of demo_env "''/data/ggml-tiny.bin''" world0 4096 "[1, 2, 3]" 4]
    borrowed_views_released [of demo_env "''/data/missing.bin''" world0 4096 "[1, 2, 3]" 0]
    borrowed_views_released [of no_memory_env "''/data/missing.bin''" world0 4096 "[1, 2, 3]" 4]
  show ?thesis
    unfolding empty by simp
qed

text \<open>
  C9. \<open>nativeGetSystemInfo\<close> takes nothing but the library, has no error result, and
  returns the string of \<open>whisper_print_system_info\<close> as it is; the library's string
  not being empty, neither is the result.
\<close>

theorem system_info_passed_through:
  "nativeGetSystemInfo e = c_str (whisper_print_system_info e) \<and>
   (describes_build e \<longrightarrow> nativeGetSystemInfo e \<noteq> [])"
  by (simp add: nativeGetSystemInfo_def NewStringUTF_def describes_build_def)

theorem system_info_passed_through_witness:
  "describes_build demo_env \<and> nativeGetSystemInfo demo_env = ''NEON = 1 | '' \<and>
   nativeGetSystemInfo demo_env \<noteq> []"
proof -
  have build: "describes_build demo_env"
    by (simp add: describes_build_def demo_env_def c_str_def NUL_def)
  have info: "c_str (whisper_print_system_info demo_env) = ''NEON = 1 | ''"
    by (simp add: demo_env_def c_str_def NUL_def)
  from system_info_passed_through [of demo_env] build show ?thesis
    unfolding info by simp
qed

text \<open>
  C10. A segment whose text is NULL counts as the empty string in both passes and in
  the result. For every state the library leaves, the first loop computes the length
  of the concatenation of the segment texts, NULL read as empty, and the second loop,
  on a block of that length plus one, writes that concatenation and its NUL without
  leaving the block. For every handle that is not \<open>0\<close> on which \<open>whisper_full\<close> returns
  \<open>0\<close>, the size \<open>nativeTranscribe\<close> asks \<open>malloc\<close> for is that length plus one, and
  the value it returns (built at line 140) is the empty string when \<open>malloc\<close> returns
  NULL and otherwise that concatenation without its leading spaces, newlines and
  tabs. And a library that emits the empty string wherever this one emits NULL gets
  the same result and the same world from \<open>nativeTranscribe\<close>, for every handle.
\<close>

theorem null_texts_skipped:
  "total_len_loop st (whisper_full_n_segments st) 0 0 = length (concat (segment_texts st)) \<and>
   strcat_loop st (whisper_full_n_segments st) 0
     ((map (uninit e) [0..<total_len_loop st (whisper_full_n_segments st) 0 0 + 1])[0 := NUL]) =
     Inr (concat (segment_texts st) @ [NUL]) \<and>
   (context_ptr \<noteq> 0 \<and>
    whisper_full e context_ptr (transcribe_params e num_threads) audio_data
      (int (length audio_data)) = (0, st) \<longrightarrow>
    return_value (nativeTranscribe e context_ptr audio_data num_threads w) =
      (if malloc e (length (concat (segment_texts st)) + 1) = 0 then Inr ''''
       else Inr (dropWhile leading_ws (concat (segment_texts st))))) \<and>
   nativeTranscribe (without_null_texts e) context_ptr' audio_data' num_threads' w =
     nativeTranscribe e context_ptr' audio_data' num_threads' w"
proof -
  have len: "total_len_loop st (whisper_full_n_segments st) 0 0 =
             length (concat (segment_texts st))"
    by (rule total_len_loop_segment_texts)
  have cat: "strcat_loop st (whisper_full_n_segments st) 0
               ((map (uninit e)
                   [0..<total_len_loop st (whisper_full_n_segments st) 0 0 + 1])[0 := NUL]) =
             Inr (concat (segment_texts st) @ [NUL])"
    unfolding len by (rule strcat_loop_segment_texts)
  have returned:
    "return_value (nativeTranscribe e context_ptr audio_data num_threads w) =
       (if malloc e (length (concat (segment_texts st)) + 1) = 0 then Inr ''''
        else Inr (dropWhile leading_ws (concat (segment_texts st))))"
    if "context_ptr \<noteq> 0"
      and "whisper_full e context_ptr (transcribe_params e num_threads) audio_data
             (int (length audio_data)) = (0, st)"
    unfolding nativeTranscribe_eq [OF that] collect_segments_eq
    by (simp add: return_value_def Let_def)
  have same: "nativeTranscribe (without_null_texts e) context_ptr' audio_data' num_threads' w =
              nativeTranscribe e context_ptr' audio_data' num_threads' w"
    by (rule nativeTranscribe_without_null_texts)
  from len cat returned same show ?thesis
    by blast
qed

theorem null_texts_skipped_witness:
  "whisper_full_get_segment_text demo_state 1 = None \<and>
   segment_texts demo_state = [CHR 0x0A # CHR 0x09 # '' hello'', [], '' world ''] \<and>
   total_len_loop demo_state (whisper_full_n_segments demo_state) 0 0 = 15 \<and>
   strcat_loop demo_state (whisper_full_n_segments demo_state) 0
     ((map (uninit demo_env)
         [0..<total_len_loop demo_state (whisper_full_n_segments demo_state) 0 0 + 1])[0 := NUL]) =
     Inr (CHR 0x0A # CHR 0x09 # '' hello world '' @ [NUL]) \<and>
   (4096 :: jlong) \<noteq> 0 \<and>
   whisper_full demo_env 4096 (transcribe_params demo_env 4) [1, 2, 3]
     (int (length [1, 2, 3 :: jfloat])) = (0, demo_state) \<and>
   malloc demo_env 16 \<noteq> 0 \<and>
   return_value (nativeTranscribe demo_env 4096 [1, 2, 3] 4 world0) = Inr ''hello world '' \<and>
   return_value (nativeTranscribe (without_null_texts demo_env) 4096 [1, 2, 3] 4 world0) =
     Inr ''hello world ''"
proof -
  have null: "whisper_full_get_segment_text demo_state 1 = None"
    by (simp add: demo_state_def)
  have texts: "segment_texts demo_state = [CHR 0x0A # CHR 0x09 # '' hello'', [], '' world '']"
    by (simp add: segment_texts_def segment_text_def demo_state_def c_str_def NUL_def
        upt_conv_Cons)
  have nonzero: "(4096 :: jlong) \<noteq> 0"
    by simp
  have full: "whisper_full demo_env 4096 (transcribe_params demo_env 4) [1, 2, 3]
                (int (length [1, 2, 3 :: jfloat])) = (0, demo_state)"
    by (simp add: demo_env_def transcribe_params_def)
  have block: "malloc demo_env 16 \<noteq> 0"
    by (simp add: demo_env_def)
  note claim = null_texts_skipped [of demo_state demo_env 4096 4 "[1, 2, 3]" world0
      4096 "[1, 2, 3]" 4]
  from claim have "total_len_loop demo_state (whisper_full_n_segments demo_state) 0 0 =
                   length (concat (segment_texts demo_state))"
    by blast
  then have len: "total_len_loop demo_state (whisper_full_n_segments demo_state) 0 0 = 15"
    unfolding texts by simp
  have flat: "concat (segment_texts demo_state) @ [NUL] =
              CHR 0x0A # CHR 0x09 # '' hello world '' @ [NUL]"
    unfolding texts by simp
  from claim have
    "strcat_loop demo_state (whisper_full_n_segments demo_state) 0
       ((map (uninit demo_env)
           [0..<total_len_loop demo_state (whisper_full_n_segments demo_state) 0 0 + 1])
        [0 := NUL]) =
     Inr (concat (segment_texts demo_state) @ [NUL])"
    by blast
  then have cat:
    "strcat_loop demo_state (whisper_full_n_segments demo_state) 0
       ((map (uninit demo_env)
           [0..<total_len_loop demo_state (whisper_full_n_segments demo_state) 0 0 + 1])
        [0 := NUL]) =
     Inr (CHR 0x0A # CHR 0x09 # '' hello world '' @ [NUL])"
    unfolding flat .
  have size: "length (concat (segment_texts demo_state)) + 1 = 16"
    unfolding texts by simp
  have trimmed: "dropWhile leading_ws (concat (segment_texts demo_state)) = ''hello world ''"
    unfolding texts by (simp add: leading_ws_def)
  from claim nonzero full have
    "return_value (nativeTranscribe demo_env 4096 [1, 2, 3] 4 world0) =
       (if malloc demo_env (length (concat (segment_texts demo_state)) + 1) = 0 then Inr ''''
        else Inr (dropWhile leading_ws (concat (segment_texts demo_state))))"
    by blast
  then have returned:
    "return_value (nativeTranscribe demo_env 4096 [1, 2, 3] 4 world0) = Inr ''hello world ''"
    unfolding size trimmed using block by simp
  from claim have
    "nativeTranscribe (without_null_texts demo_env) 4096 [1, 2, 3] 4 world0 =
     nativeTranscribe demo_env 4096 [1, 2, 3] 4 world0"
    by blast
  with returned have returned':
    "return_value (nativeTranscribe (without_null_texts demo_env) 4096 [1, 2, 3] 4 world0) =
       Inr ''hello world ''"
    by simp
  from null texts len cat nonzero full block returned returned' show ?thesis
    by (intro conjI)
qed

end
